theory Spec2Isabelle
  imports Complex_Main
begin

section \<open>Data model of \<open>src/main.py\<close>\<close>

text \<open>
  The program is one class, \<open>Character\<close>, and a render loop. Coordinates and offsets
  are modelled as Python's unbounded integers (\<open>int\<close>), which is what \<open>main\<close> passes
  (\<open>width // 2\<close>, \<open>height // 2\<close> and integer offsets). The orientation and the angle
  given to \<open>rotate\<close> are Python numbers, an \<open>int\<close> or a \<open>float\<close>: the docstring of
  \<open>__init__\<close> declares the orientation a float, \<open>main\<close> passes the int \<open>0\<close>, and what
  \<open>(self.orientation + angle) % 360\<close> stores depends on which of the two its operands are.

  A point is a pair, a colour an RGB triple. The attribute \<open>body_points\<close> is a Python
  object that may be \<open>None\<close> or a list of pairs: \<open>None\<close> is \<open>None\<close>, a list \<open>ps\<close> is
  \<open>Some ps\<close>.
\<close>

type_synonym point = "int \<times> int"
type_synonym color = "int \<times> int \<times> int"

datatype error = TypeError | IndexError | OverflowError | ZeroDivisionError

text \<open>Sequencing of statements that may raise: the first exception ends the call.\<close>

definition and_then :: "error + 'a \<Rightarrow> ('a \<Rightarrow> error + 'b) \<Rightarrow> error + 'b" where
  "and_then r f = (case r of Inl e \<Rightarrow> Inl e | Inr v \<Rightarrow> f v)"

subsection \<open>Python numbers\<close>

text \<open>
  A Python \<open>float\<close> is an IEEE 754 binary64 value. A finite one is represented by its exact
  value, a rational; the two zeros, which compare equal, are both \<open>Finite 0\<close>. The other
  values are the two infinities and \<open>nan\<close>.
\<close>

datatype double = Finite rat | PosInf | NegInf | NaN

datatype number = PyInt int | PyFloat double

text \<open>The number of binary digits of a positive integer (\<open>int.bit_length\<close>).\<close>

function bit_length :: "int \<Rightarrow> int" where
  "bit_length n = (if n \<le> 0 then 0 else 1 + bit_length (n div 2))"
  by pat_completeness auto
termination
  by (relation "measure nat") auto

declare bit_length.simps [simp del]

definition pow2 :: "int \<Rightarrow> rat" where
  "pow2 k = (if 0 \<le> k then of_int (2 ^ nat k) else 1 / of_int (2 ^ nat (- k)))"

text \<open>For \<open>q > 0\<close>, the exponent \<open>e\<close> with \<open>2^e \<le> q < 2^(e+1)\<close>.\<close>

definition floor_log2 :: "rat \<Rightarrow> int" where
  "floor_log2 q =
     (if 1 \<le> q then bit_length \<lfloor>q\<rfloor> - 1
      else - bit_length (\<lceil>1 / q\<rceil> - 1))"

definition round_half_even :: "rat \<Rightarrow> int" where
  "round_half_even q =
     (let f = \<lfloor>q\<rfloor>; d = q - of_int f
      in if d < 1 / 2 then f
         else if 1 / 2 < d then f + 1
         else if even f then f else f + 1)"

text \<open>
  Rounding of an exact value to binary64, to nearest, ties to even: 53 significant bits,
  the spacing never below \<open>2^-1074\<close> (subnormal numbers), and overflow to an infinity when
  the rounded magnitude reaches \<open>2^1024\<close>.
\<close>

definition round64 :: "rat \<Rightarrow> double" where
  "round64 q =
     (if q = 0 then Finite 0
      else let t = max (floor_log2 \<bar>q\<bar> - 52) (- 1074);
               m = round_half_even (\<bar>q\<bar> / pow2 t);
               v = of_int m * pow2 t
           in if pow2 1024 \<le> v then (if q < 0 then NegInf else PosInf)
              else Finite (sgn q * v))"

text \<open>Addition of two floats.\<close>

fun double_add :: "double \<Rightarrow> double \<Rightarrow> double" where
  "double_add NaN b = NaN"
| "double_add a NaN = NaN"
| "double_add PosInf NegInf = NaN"
| "double_add NegInf PosInf = NaN"
| "double_add PosInf b = PosInf"
| "double_add NegInf b = NegInf"
| "double_add a PosInf = PosInf"
| "double_add a NegInf = NegInf"
| "double_add (Finite a) (Finite b) = round64 (a + b)"

text \<open>
  C's \<open>fmod\<close>, which the float \<open>%\<close> of Python calls: the remainder of the division truncated
  towards zero. It is exact, and \<open>nan\<close> for an infinite dividend or a zero divisor.
\<close>

definition truncate :: "rat \<Rightarrow> int" where
  "truncate q = (if 0 \<le> q then \<lfloor>q\<rfloor> else \<lceil>q\<rceil>)"

fun fmod :: "double \<Rightarrow> double \<Rightarrow> double" where
  "fmod NaN w = NaN"
| "fmod v NaN = NaN"
| "fmod PosInf w = NaN"
| "fmod NegInf w = NaN"
| "fmod (Finite v) PosInf = Finite v"
| "fmod (Finite v) NegInf = Finite v"
| "fmod (Finite v) (Finite w) =
     (if w = 0 then NaN else Finite (v - w * of_int (truncate (v / w))))"

fun negative :: "double \<Rightarrow> bool" where
  "negative (Finite q) = (q < 0)"
| "negative NegInf = True"
| "negative PosInf = False"
| "negative NaN = False"

text \<open>
  The float \<open>%\<close> of Python (\<open>float_rem\<close>): a zero divisor raises; a non-zero remainder
  (\<open>nan\<close> counts as non-zero) whose sign differs from the divisor's has the divisor added
  to it, by a float addition; a zero remainder is returned as zero.
\<close>

definition float_rem :: "double \<Rightarrow> double \<Rightarrow> error + double" where
  "float_rem vx wx =
     (if wx = Finite 0 then Inl ZeroDivisionError
      else let m = fmod vx wx
           in if m \<noteq> Finite 0
              then (if negative wx \<noteq> negative m then Inr (double_add m wx) else Inr m)
              else Inr (Finite 0))"

text \<open>
  Conversion of an operand to a float: an \<open>int\<close> is rounded to the nearest float, and
  raises \<open>OverflowError\<close> when it is too large.
\<close>

definition float_of_int :: "int \<Rightarrow> error + double" where
  "float_of_int i =
     (case round64 (of_int i) of Finite q \<Rightarrow> Inr (Finite q) | _ \<Rightarrow> Inl OverflowError)"

fun convert_to_double :: "number \<Rightarrow> error + double" where
  "convert_to_double (PyInt i) = float_of_int i"
| "convert_to_double (PyFloat d) = Inr d"

text \<open>
  Python's \<open>+\<close> and \<open>%\<close> on numbers: on two ints they are exact (\<open>%\<close> has the sign of the
  divisor, as \<open>mod\<close> on \<open>int\<close> has); when an operand is a float, both are converted to
  floats.
\<close>

fun py_add :: "number \<Rightarrow> number \<Rightarrow> error + number" where
  "py_add (PyInt a) (PyInt b) = Inr (PyInt (a + b))"
| "py_add v w =
     and_then (convert_to_double v) (\<lambda>vx.
     and_then (convert_to_double w) (\<lambda>wx.
       Inr (PyFloat (double_add vx wx))))"

fun py_mod :: "number \<Rightarrow> number \<Rightarrow> error + number" where
  "py_mod (PyInt a) (PyInt b) =
     (if b = 0 then Inl ZeroDivisionError else Inr (PyInt (a mod b)))"
| "py_mod v w =
     and_then (convert_to_double v) (\<lambda>vx.
     and_then (convert_to_double w) (\<lambda>wx.
     and_then (float_rem vx wx) (\<lambda>r.
       Inr (PyFloat r))))"

subsection \<open>The character and the surface\<close>

record Character =
  x :: int
  y :: int
  orientation :: number
  body_points :: "point list option"

text \<open>The roles of the eleven indices, from the docstring of \<open>__init__\<close>.\<close>

datatype joint =
  LeftShoulder | LeftElbow | LeftHand
| RightShoulder | RightElbow | RightHand
| Waist | LeftKnee | LeftFeet | RightKnee | RightFeet

fun joint_index :: "joint \<Rightarrow> nat" where
  "joint_index LeftShoulder = 0"
| "joint_index LeftElbow = 1"
| "joint_index LeftHand = 2"
| "joint_index RightShoulder = 3"
| "joint_index RightElbow = 4"
| "joint_index RightHand = 5"
| "joint_index Waist = 6"
| "joint_index LeftKnee = 7"
| "joint_index LeftFeet = 8"
| "joint_index RightKnee = 9"
| "joint_index RightFeet = 10"

text \<open>
  The drawing surface is the external collaborator. It is modelled by the sequence of
  drawing calls it has received, oldest first: \<open>pygame.draw.line\<close> and
  \<open>pygame.draw.circle\<close> each append one entry holding their arguments.
\<close>

datatype draw_call =
  Line color point point int
| Circle color point int

type_synonym surface = "draw_call list"

definition pygame_draw_line :: "surface \<Rightarrow> color \<Rightarrow> point \<Rightarrow> point \<Rightarrow> int \<Rightarrow> surface" where
  "pygame_draw_line surface color start_pos end_pos width =
     surface @ [Line color start_pos end_pos width]"

definition pygame_draw_circle :: "surface \<Rightarrow> color \<Rightarrow> point \<Rightarrow> int \<Rightarrow> surface" where
  "pygame_draw_circle surface color center radius =
     surface @ [Circle color center radius]"

section \<open>Python primitives used by \<open>draw\<close>\<close>

text \<open>Truth value of \<open>body_points\<close>: \<open>None\<close> and the empty list are falsy.\<close>

fun truthy :: "point list option \<Rightarrow> bool" where
  "truthy None = False"
| "truthy (Some ps) = (ps \<noteq> [])"

text \<open>\<open>len(body_points)\<close> raises \<open>TypeError\<close> on \<open>None\<close>.\<close>

fun len :: "point list option \<Rightarrow> error + nat" where
  "len None = Inl TypeError"
| "len (Some ps) = Inr (length ps)"

text \<open>
  \<open>xs[i]\<close> for an index \<open>i \<ge> 0\<close>: \<open>IndexError\<close> out of range. On \<open>None\<close> the
  subscript raises \<open>TypeError\<close>.
\<close>

definition getitem :: "'a list \<Rightarrow> nat \<Rightarrow> error + 'a" where
  "getitem xs i = (if i < length xs then Inr (xs ! i) else Inl IndexError)"

fun subscript :: "point list option \<Rightarrow> nat \<Rightarrow> error + point" where
  "subscript None i = Inl TypeError"
| "subscript (Some ps) i = getitem ps i"

section \<open>The class \<open>Character\<close>\<close>

text \<open>\<open>__init__\<close> stores its four arguments as they are.\<close>

definition init :: "int \<Rightarrow> int \<Rightarrow> number \<Rightarrow> point list option \<Rightarrow> Character" where
  "init x0 y0 orientation0 body_points0 =
     \<lparr>x = x0, y = y0, orientation = orientation0, body_points = body_points0\<rparr>"

text \<open>
  The methods mutate \<open>self\<close> in place; the model returns the object after the call.
\<close>

definition move :: "int \<Rightarrow> int \<Rightarrow> Character \<Rightarrow> Character" where
  "move dx dy self = (let self = self\<lparr>x := x self + dx\<rparr> in self\<lparr>y := y self + dy\<rparr>)"

text \<open>
  \<open>rotate\<close> evaluates \<open>(self.orientation + angle) % 360\<close> and then assigns; when the
  expression raises, nothing is assigned.
\<close>

definition rotate :: "number \<Rightarrow> Character \<Rightarrow> error + Character" where
  "rotate angle self =
     and_then (py_add (orientation self) angle) (\<lambda>s.
     and_then (py_mod s (PyInt 360)) (\<lambda>r.
       Inr (self\<lparr>orientation := r\<rparr>)))"

text \<open>\<open>get_position\<close> returns a value; the second component is \<open>self\<close> after the call.\<close>

definition get_position :: "Character \<Rightarrow> point \<times> Character" where
  "get_position self = ((x self, y self), self)"

text \<open>
  The list comprehension of \<open>draw\<close>,
  \<^verbatim>\<open>[(self.body_points[i][0] + self.x, self.body_points[i][1] + self.y) for i in range(11)]\<close>,
  over the indices still to visit.
\<close>

fun comprehension :: "Character \<Rightarrow> nat list \<Rightarrow> error + point list" where
  "comprehension self [] = Inr []"
| "comprehension self (i # rest) =
     and_then (subscript (body_points self) i) (\<lambda>p.
     and_then (comprehension self rest) (\<lambda>ps.
       Inr ((fst p + x self, snd p + y self) # ps)))"

text \<open>
  One statement \<^verbatim>\<open>pygame.draw.line(surface, color, points[i], points[j], line_width)\<close>.
\<close>

definition line_between ::
  "color \<Rightarrow> int \<Rightarrow> point list \<Rightarrow> nat \<Rightarrow> nat \<Rightarrow> surface \<Rightarrow> error + surface" where
  "line_between color line_width points i j surface =
     and_then (getitem points i) (\<lambda>p.
     and_then (getitem points j) (\<lambda>q.
       Inr (pygame_draw_line surface color p q line_width)))"

text \<open>The ten line statements, in the order of the source.\<close>

definition draw_segments ::
  "color \<Rightarrow> int \<Rightarrow> point list \<Rightarrow> surface \<Rightarrow> error + surface" where
  "draw_segments color line_width points surface =
     and_then (line_between color line_width points 0 1 surface) (\<lambda>surface.
     and_then (line_between color line_width points 1 2 surface) (\<lambda>surface.
     and_then (line_between color line_width points 3 4 surface) (\<lambda>surface.
     and_then (line_between color line_width points 4 5 surface) (\<lambda>surface.
     and_then (line_between color line_width points 0 6 surface) (\<lambda>surface.
     and_then (line_between color line_width points 3 6 surface) (\<lambda>surface.
     and_then (line_between color line_width points 6 7 surface) (\<lambda>surface.
     and_then (line_between color line_width points 7 8 surface) (\<lambda>surface.
     and_then (line_between color line_width points 6 9 surface) (\<lambda>surface.
     line_between color line_width points 9 10 surface)))))))))"

text \<open>The loop \<^verbatim>\<open>for point in points: pygame.draw.circle(surface, color, point, point_radius)\<close>.\<close>

fun draw_joints :: "color \<Rightarrow> int \<Rightarrow> point list \<Rightarrow> surface \<Rightarrow> surface" where
  "draw_joints color point_radius [] surface = surface"
| "draw_joints color point_radius (point # rest) surface =
     draw_joints color point_radius rest (pygame_draw_circle surface color point point_radius)"

text \<open>
  \<open>draw\<close>. The guard is \<^verbatim>\<open>not self.body_points or len(self.body_points) < 11\<close>; \<open>or\<close>
  evaluates \<open>len\<close> only when \<open>body_points\<close> is truthy. The result is \<open>self\<close> and the
  surface after the call, or the exception raised.
\<close>

definition draw ::
  "Character \<Rightarrow> surface \<Rightarrow> color \<Rightarrow> int \<Rightarrow> int \<Rightarrow> error + (Character \<times> surface)" where
  "draw self surface color line_width point_radius =
     (if \<not> truthy (body_points self) then Inr (self, surface)
      else and_then (len (body_points self)) (\<lambda>n.
        if n < 11 then Inr (self, surface)
        else and_then (comprehension self [0..<11]) (\<lambda>points.
             and_then (draw_segments color line_width points surface) (\<lambda>surface.
               Inr (self, draw_joints color point_radius points surface)))))"

text \<open>The default arguments of \<open>draw\<close>: white, line width 2, point radius 4.\<close>

definition draw_default :: "Character \<Rightarrow> surface \<Rightarrow> error + (Character \<times> surface)" where
  "draw_default self surface = draw self surface (255, 255, 255) 2 4"

text \<open>The pose that \<open>main\<close> constructs, and its character at the centre of an 800 x 600 window.\<close>

definition sample_pose :: "point list" where
  "sample_pose =
     [(-10, -30), (-20, -10), (-30, 5),
      (10, -30), (20, -10), (30, 5),
      (0, 0), (-5, 20), (-5, 40), (5, 20), (5, 40)]"

definition main_character :: Character where
  "main_character = init (800 div 2) (600 div 2) (PyInt 0) (Some sample_pose)"

section \<open>Observers of a surface\<close>

text \<open>
  Used only to state properties: the end points of the lines, the centres of the circles
  and the colours recorded on a surface, in the order of the calls.
\<close>

fun line_ends :: "surface \<Rightarrow> (point \<times> point) list" where
  "line_ends [] = []"
| "line_ends (Line c p q w # rest) = (p, q) # line_ends rest"
| "line_ends (Circle c p r # rest) = line_ends rest"

fun circle_centres :: "surface \<Rightarrow> point list" where
  "circle_centres [] = []"
| "circle_centres (Line c p q w # rest) = circle_centres rest"
| "circle_centres (Circle c p r # rest) = p # circle_centres rest"

fun call_color :: "draw_call \<Rightarrow> color" where
  "call_color (Line c p q w) = c"
| "call_color (Circle c p r) = c"

section \<open>Notions used to state the properties\<close>

text \<open>
  The absolute position of the joint at index \<open>i\<close>: the element that the comprehension of
  \<open>draw\<close> builds from \<open>body_points[i]\<close>.
\<close>

definition absolute :: "Character \<Rightarrow> point list \<Rightarrow> nat \<Rightarrow> point" where
  "absolute self bp i = (fst (bp ! i) + x self, snd (bp ! i) + y self)"

text \<open>
  The calls of one rendering, as a function of the position \<open>P i\<close> of each index: the
  closed form of what the ten line statements and the loop over the points append.
\<close>

definition figure :: "color \<Rightarrow> int \<Rightarrow> int \<Rightarrow> (nat \<Rightarrow> point) \<Rightarrow> draw_call list" where
  "figure color lw r P =
     [Line color (P 0) (P 1) lw, Line color (P 1) (P 2) lw,
      Line color (P 3) (P 4) lw, Line color (P 4) (P 5) lw,
      Line color (P 0) (P 6) lw, Line color (P 3) (P 6) lw,
      Line color (P 6) (P 7) lw, Line color (P 7) (P 8) lw,
      Line color (P 6) (P 9) lw, Line color (P 9) (P 10) lw] @
     map (\<lambda>i. Circle color (P i) r) [0..<11]"

text \<open>
  The topology as the specification words it: ten segments between named joints, and the
  eleven joints in index order.
\<close>

definition spec_segments :: "(joint \<times> joint) list" where
  "spec_segments =
     [(LeftShoulder, LeftElbow), (LeftElbow, LeftHand),
      (RightShoulder, RightElbow), (RightElbow, RightHand),
      (LeftShoulder, Waist), (RightShoulder, Waist),
      (Waist, LeftKnee), (LeftKnee, LeftFeet),
      (Waist, RightKnee), (RightKnee, RightFeet)]"

definition spec_joints :: "joint list" where
  "spec_joints =
     [LeftShoulder, LeftElbow, LeftHand, RightShoulder, RightElbow, RightHand,
      Waist, LeftKnee, LeftFeet, RightKnee, RightFeet]"

text \<open>
  The invariant that the specification states for the orientation field: a number in
  \<open>[0, 360)\<close>, that is \<open>0 <= orientation < 360\<close> in Python, which is false of \<open>nan\<close>.
\<close>

fun in_range :: "number \<Rightarrow> bool" where
  "in_range (PyInt i) = (0 \<le> i \<and> i < 360)"
| "in_range (PyFloat (Finite q)) = (0 \<le> q \<and> q < 360)"
| "in_range (PyFloat d) = False"

definition normalized :: "Character \<Rightarrow> bool" where
  "normalized self = in_range (orientation self)"

section \<open>What \<open>draw\<close> computes\<close>

lemma comprehension_in_range:
  assumes "body_points self = Some bp" and "\<And>i. i \<in> set idxs \<Longrightarrow> i < length bp"
  shows "comprehension self idxs = Inr (map (absolute self bp) idxs)"
  using assms(2)
  by (induction idxs) (simp_all add: assms(1) and_then_def getitem_def absolute_def)

lemma draw_joints_appends:
  "draw_joints color r ps s = s @ map (\<lambda>p. Circle color p r) ps"
  by (induction ps arbitrary: s) (simp_all add: pygame_draw_circle_def)

lemma line_between_in_range:
  "i < length ps \<Longrightarrow> j < length ps \<Longrightarrow>
     line_between color lw ps i j s = Inr (s @ [Line color (ps ! i) (ps ! j) lw])"
  by (simp add: line_between_def and_then_def getitem_def pygame_draw_line_def)

lemma draw_segments_eleven:
  assumes "length ps = 11"
  shows "draw_segments color lw ps s =
     Inr (s @ [Line color (ps ! 0) (ps ! 1) lw, Line color (ps ! 1) (ps ! 2) lw,
               Line color (ps ! 3) (ps ! 4) lw, Line color (ps ! 4) (ps ! 5) lw,
               Line color (ps ! 0) (ps ! 6) lw, Line color (ps ! 3) (ps ! 6) lw,
               Line color (ps ! 6) (ps ! 7) lw, Line color (ps ! 7) (ps ! 8) lw,
               Line color (ps ! 6) (ps ! 9) lw, Line color (ps ! 9) (ps ! 10) lw])"
  using assms by (simp add: draw_segments_def line_between_in_range and_then_def)

text \<open>With at least eleven body points, \<open>draw\<close> appends ten lines and eleven circles.\<close>

lemma draw_renders:
  assumes bp: "body_points self = Some bp" and n: "11 \<le> length bp"
  shows "draw self s color lw r = Inr (self, s @ figure color lw r (absolute self bp))"
proof -
  define ps where "ps = map (absolute self bp) [0..<11]"
  have c: "comprehension self [0..<11] = Inr ps"
    unfolding ps_def using n by (intro comprehension_in_range [OF bp]) simp
  have l: "length ps = 11"
    by (simp add: ps_def)
  have t: "bp \<noteq> []" and m: "\<not> length bp < 11"
    using n by auto
  have nth: "ps ! i = absolute self bp i" if "i < 11" for i
    using that by (simp add: ps_def)
  have circles:
    "map (\<lambda>p. Circle color p r) ps = map (\<lambda>i. Circle color (absolute self bp i) r) [0..<11]"
    by (simp add: ps_def comp_def)
  have "draw self s color lw r =
     Inr (self, s @
       [Line color (ps ! 0) (ps ! 1) lw, Line color (ps ! 1) (ps ! 2) lw,
        Line color (ps ! 3) (ps ! 4) lw, Line color (ps ! 4) (ps ! 5) lw,
        Line color (ps ! 0) (ps ! 6) lw, Line color (ps ! 3) (ps ! 6) lw,
        Line color (ps ! 6) (ps ! 7) lw, Line color (ps ! 7) (ps ! 8) lw,
        Line color (ps ! 6) (ps ! 9) lw, Line color (ps ! 9) (ps ! 10) lw] @
       map (\<lambda>p. Circle color p r) ps)"
    unfolding draw_def
    by (simp add: t bp m c and_then_def draw_segments_eleven [OF l] draw_joints_appends)
  then show ?thesis
    unfolding figure_def by (simp only: circles nth)
qed

text \<open>Without eleven body points, \<open>draw\<close> returns at its guard.\<close>

lemma draw_skips:
  assumes "body_points self = None \<or> (\<exists>bp. body_points self = Some bp \<and> length bp < 11)"
  shows "draw self s color lw r = Inr (self, s)"
  using assms by (auto simp add: draw_def and_then_def)

text \<open>In every case \<open>draw\<close> returns, with \<open>self\<close> as it was and the surface extended.\<close>

lemma draw_returns_self: "\<exists>calls. draw self s color lw r = Inr (self, s @ calls)"
proof (cases "body_points self")
  case None
  then show ?thesis using draw_skips [of self s color lw r] by simp
next
  case (Some bp)
  show ?thesis
  proof (cases "length bp < 11")
    case True
    then show ?thesis using Some draw_skips [of self s color lw r] by simp
  next
    case False
    then have "11 \<le> length bp" by simp
    from draw_renders [OF Some this] show ?thesis by blast
  qed
qed

section \<open>What the rendering holds\<close>

lemma figure_cong:
  assumes "\<And>i. i < 11 \<Longrightarrow> P i = Q i"
  shows "figure color lw r P = figure color lw r Q"
  unfolding figure_def by (simp add: assms del: upt_Suc map_upt_Suc)

lemma circle_centres_circles:
  "circle_centres (map (\<lambda>i. Circle color (P i) r) idxs) = map P idxs"
  by (induction idxs) simp_all

lemma line_ends_circles: "line_ends (map (\<lambda>i. Circle color (P i) r) idxs) = []"
  by (induction idxs) simp_all

lemma circle_centres_figure: "circle_centres (figure color lw r P) = map P [0..<11]"
  unfolding figure_def by (simp add: circle_centres_circles del: upt_Suc map_upt_Suc)

lemma line_ends_figure:
  "line_ends (figure color lw r P) =
     [(P 0, P 1), (P 1, P 2), (P 3, P 4), (P 4, P 5), (P 0, P 6),
      (P 3, P 6), (P 6, P 7), (P 7, P 8), (P 6, P 9), (P 9, P 10)]"
  unfolding figure_def by (simp add: line_ends_circles del: upt_Suc map_upt_Suc)

lemma upt_eleven: "[0..<11] = [0, 1, 2, 3, 4, 5, 6, 7, 8, 9, 10::nat]"
  by (simp add: upt_conv_Cons)

lemma length_figure: "length (figure color lw r P) = 21"
  by (simp add: figure_def)

lemma color_figure: "map call_color (figure color lw r P) = replicate 21 color"
  unfolding figure_def upt_eleven by (simp add: numeral_eq_Suc)

lemma absolute_all:
  "length bp = n \<Longrightarrow>
     map (absolute self bp) [0..<n] = map (\<lambda>p. (fst p + x self, snd p + y self)) bp"
  by (simp add: list_eq_iff_nth_eq absolute_def)

lemma absolute_orientation:
  "absolute (self\<lparr>orientation := angle\<rparr>) bp = absolute self bp"
  by (rule ext) (simp add: absolute_def)

lemma absolute_body_points:
  "absolute (self\<lparr>body_points := other\<rparr>) bp = absolute self bp"
  by (rule ext) (simp add: absolute_def)

lemma absolute_first_eleven:
  assumes "11 \<le> length bp" and "i < 11"
  shows "absolute self (take 11 bp @ extra) i = absolute self bp i"
  using assms by (simp add: absolute_def nth_append)

text \<open>The sample pose of \<open>main\<close>, and its absolute positions around (400, 300).\<close>

lemma main_character_fields:
  "x main_character = 400" "y main_character = 300" "orientation main_character = PyInt 0"
  "body_points main_character = Some sample_pose"
  by (simp_all add: main_character_def init_def)

lemma length_sample_pose: "length sample_pose = 11"
  by (simp add: sample_pose_def)

lemma sample_positions:
  "map (\<lambda>p. (fst p + x main_character, snd p + y main_character)) sample_pose =
     [(390, 270), (380, 290), (370, 305), (410, 270), (420, 290), (430, 305),
      (400, 300), (395, 320), (395, 340), (405, 320), (405, 340)]"
  by (simp add: main_character_fields sample_pose_def)

lemma sample_segments:
  "map (\<lambda>(a, b). (absolute main_character sample_pose (joint_index a),
                    absolute main_character sample_pose (joint_index b))) spec_segments =
     [((390, 270), (380, 290)), ((380, 290), (370, 305)),
      ((410, 270), (420, 290)), ((420, 290), (430, 305)),
      ((390, 270), (400, 300)), ((410, 270), (400, 300)),
      ((400, 300), (395, 320)), ((395, 320), (395, 340)),
      ((400, 300), (405, 320)), ((405, 320), (405, 340))]"
  by (simp add: spec_segments_def absolute_def main_character_fields sample_pose_def)

section \<open>What \<open>rotate\<close> computes\<close>

text \<open>On two ints, \<open>rotate\<close> is exact and cannot raise.\<close>

lemma rotate_ints:
  assumes "orientation self = PyInt ori"
  shows "rotate (PyInt angle) self = Inr (self\<lparr>orientation := PyInt ((ori + angle) mod 360)\<rparr>)"
  by (simp add: rotate_def and_then_def assms)

text \<open>Whatever the operands, a \<open>rotate\<close> that returns has assigned the orientation only.\<close>

lemma rotate_assigns_orientation:
  assumes "rotate angle self = Inr self'"
  shows "\<exists>v. self' = self\<lparr>orientation := v\<rparr>"
  using assms by (auto simp add: rotate_def and_then_def split: sum.splits)

lemma main_character_rotated:
  "main_character\<lparr>orientation := v\<rparr> = init 400 300 v (Some sample_pose)"
  by (simp add: main_character_def init_def)

section \<open>The claims\<close>

subsection \<open>Rendering\<close>

text \<open>
  Claim C1. For a character whose \<open>body_points\<close> is a list of exactly 11 offset pairs,
  \<open>draw\<close> does not raise; the points it computes, and the centres of the circles it draws,
  are the offsets each added componentwise to the position \<open>(x, y)\<close>, for all 11 indices in
  order. The orientation is not applied: whatever value the field holds, and after any
  \<open>rotate\<close> that returns, the same calls reach the surface.
\<close>

theorem draw_joint_positions:
  assumes "body_points self = Some bp" and "length bp = 11"
  shows "\<exists>calls.
     comprehension self [0..<11] = Inr (map (\<lambda>p. (fst p + x self, snd p + y self)) bp)
     \<and> draw self surface color lw r = Inr (self, surface @ calls)
     \<and> circle_centres calls = map (\<lambda>p. (fst p + x self, snd p + y self)) bp
     \<and> length (circle_centres calls) = 11
     \<and> (\<forall>angle. draw (self\<lparr>orientation := angle\<rparr>) surface color lw r
           = Inr (self\<lparr>orientation := angle\<rparr>, surface @ calls))
     \<and> (\<forall>angle self'. rotate angle self = Inr self' \<longrightarrow>
           draw self' surface color lw r = Inr (self', surface @ calls))"
proof -
  let ?calls = "figure color lw r (absolute self bp)"
  have n: "11 \<le> length bp"
    using assms(2) by simp
  have all: "map (absolute self bp) [0..<11] = map (\<lambda>p. (fst p + x self, snd p + y self)) bp"
    by (rule absolute_all [OF assms(2)])
  have c: "comprehension self [0..<11] = Inr (map (\<lambda>p. (fst p + x self, snd p + y self)) bp)"
    using comprehension_in_range [OF assms(1), of "[0..<11]"] n by (simp only: all) simp
  have d: "draw self surface color lw r = Inr (self, surface @ ?calls)"
    by (rule draw_renders [OF assms(1) n])
  have o: "draw (self\<lparr>orientation := angle\<rparr>) surface color lw r
      = Inr (self\<lparr>orientation := angle\<rparr>, surface @ ?calls)" for angle
    using draw_renders [of "self\<lparr>orientation := angle\<rparr>" bp surface color lw r] assms(1) n
    by (simp add: absolute_orientation)
  have cc: "circle_centres ?calls = map (\<lambda>p. (fst p + x self, snd p + y self)) bp"
    by (simp only: circle_centres_figure all)
  have l: "length (circle_centres ?calls) = 11"
    by (simp only: cc length_map assms(2))
  have ro: "draw self' surface color lw r = Inr (self', surface @ ?calls)"
    if "rotate angle self = Inr self'" for angle self'
  proof -
    from rotate_assigns_orientation [OF that]
    obtain v where "self' = self\<lparr>orientation := v\<rparr>" ..
    then show ?thesis
      by (simp only: o)
  qed
  show ?thesis
    using c d cc l o ro by blast
qed

theorem draw_joint_positions_witness:
  "body_points main_character = Some sample_pose \<and> length sample_pose = 11
   \<and> (\<exists>calls. draw main_character [] (255, 255, 255) 2 4 = Inr (main_character, calls)
        \<and> circle_centres calls =
            [(390, 270), (380, 290), (370, 305), (410, 270), (420, 290), (430, 305),
             (400, 300), (395, 320), (395, 340), (405, 320), (405, 340)]
        \<and> rotate (PyInt 90) main_character = Inr (init 400 300 (PyInt 90) (Some sample_pose))
        \<and> draw (init 400 300 (PyInt 90) (Some sample_pose)) [] (255, 255, 255) 2 4
            = Inr (init 400 300 (PyInt 90) (Some sample_pose), calls))"
proof -
  have ro: "rotate (PyInt 90) main_character = Inr (init 400 300 (PyInt 90) (Some sample_pose))"
    using rotate_ints [OF main_character_fields(3), of 90]
    by (simp add: main_character_rotated)
  from draw_joint_positions [OF main_character_fields(4) length_sample_pose,
      of "[]" "(255, 255, 255)" 2 4]
  obtain calls where
    d: "draw main_character [] (255, 255, 255) 2 4 = Inr (main_character, [] @ calls)" and
    cc: "circle_centres calls =
       map (\<lambda>p. (fst p + x main_character, snd p + y main_character)) sample_pose" and
    r: "\<forall>angle self'. rotate angle main_character = Inr self' \<longrightarrow>
       draw self' [] (255, 255, 255) 2 4 = Inr (self', [] @ calls)"
    by (elim exE conjE)
  have d': "draw main_character [] (255, 255, 255) 2 4 = Inr (main_character, calls)"
    using d by (simp only: append_Nil)
  have cc': "circle_centres calls =
            [(390, 270), (380, 290), (370, 305), (410, 270), (420, 290), (430, 305),
             (400, 300), (395, 320), (395, 340), (405, 320), (405, 340)]"
    using cc by (simp only: sample_positions)
  have r': "draw (init 400 300 (PyInt 90) (Some sample_pose)) [] (255, 255, 255) 2 4
            = Inr (init 400 300 (PyInt 90) (Some sample_pose), calls)"
    using r [rule_format, OF ro] by (simp only: append_Nil)
  show ?thesis
    by (intro conjI exI [of _ calls])
      (rule main_character_fields(4) length_sample_pose d' cc' ro r')+
qed

text \<open>
  Claim C5. For a character with exactly 11 body points, one call of \<open>draw\<close> appends
  exactly 21 calls to the surface: 10 lines, joining the joints in the order left
  shoulder - left elbow, left elbow - left hand, right shoulder - right elbow, right elbow -
  right hand, left shoulder - waist, right shoulder - waist, waist - left knee, left knee -
  left feet, waist - right knee, right knee - right feet, each with the given line width;
  then 11 circles of the given radius, one centred at each absolute joint position in index
  order. Every call carries the colour passed to \<open>draw\<close>.
\<close>

theorem draw_issues_figure:
  assumes "body_points self = Some bp" and "length bp = 11"
  shows "\<exists>calls.
     draw self surface color lw r = Inr (self, surface @ calls)
     \<and> calls =
         map (\<lambda>(a, b). Line color (absolute self bp (joint_index a))
                                  (absolute self bp (joint_index b)) lw) spec_segments
         @ map (\<lambda>j. Circle color (absolute self bp (joint_index j)) r) spec_joints
     \<and> length (line_ends calls) = 10
     \<and> line_ends calls =
         map (\<lambda>(a, b). (absolute self bp (joint_index a), absolute self bp (joint_index b)))
           spec_segments
     \<and> length (circle_centres calls) = 11
     \<and> circle_centres calls = map (\<lambda>j. absolute self bp (joint_index j)) spec_joints
     \<and> length calls = 21
     \<and> map call_color calls = replicate 21 color"
proof -
  let ?calls = "figure color lw r (absolute self bp)"
  have n: "11 \<le> length bp"
    using assms(2) by simp
  have d: "draw self surface color lw r = Inr (self, surface @ ?calls)"
    by (rule draw_renders [OF assms(1) n])
  have e: "?calls =
         map (\<lambda>(a, b). Line color (absolute self bp (joint_index a))
                                  (absolute self bp (joint_index b)) lw) spec_segments
         @ map (\<lambda>j. Circle color (absolute self bp (joint_index j)) r) spec_joints"
    by (simp add: figure_def upt_eleven spec_segments_def spec_joints_def)
  have le: "line_ends ?calls =
         map (\<lambda>(a, b). (absolute self bp (joint_index a), absolute self bp (joint_index b)))
           spec_segments"
    by (simp add: line_ends_figure spec_segments_def)
  have cc: "circle_centres ?calls = map (\<lambda>j. absolute self bp (joint_index j)) spec_joints"
    by (simp add: circle_centres_figure upt_eleven spec_joints_def)
  have l1: "length (line_ends ?calls) = 10"
    by (simp add: line_ends_figure)
  have l2: "length (circle_centres ?calls) = 11"
    by (simp add: circle_centres_figure)
  show ?thesis
    using d e le cc l1 l2 length_figure [of color lw r "absolute self bp"]
      color_figure [of color lw r "absolute self bp"]
    by blast
qed

theorem draw_issues_figure_witness:
  "body_points main_character = Some sample_pose \<and> length sample_pose = 11
   \<and> (\<exists>calls. draw_default main_character [] = Inr (main_character, calls)
        \<and> length (line_ends calls) = 10 \<and> length (circle_centres calls) = 11
        \<and> line_ends calls =
            [((390, 270), (380, 290)), ((380, 290), (370, 305)),
             ((410, 270), (420, 290)), ((420, 290), (430, 305)),
             ((390, 270), (400, 300)), ((410, 270), (400, 300)),
             ((400, 300), (395, 320)), ((395, 320), (395, 340)),
             ((400, 300), (405, 320)), ((405, 320), (405, 340))]
        \<and> length calls = 21
        \<and> map call_color calls = replicate 21 (255, 255, 255))"
proof -
  from draw_issues_figure [OF main_character_fields(4) length_sample_pose,
      of "[]" "(255, 255, 255)" 2 4]
  obtain calls where
    d: "draw main_character [] (255, 255, 255) 2 4 = Inr (main_character, [] @ calls)" and
    l1: "length (line_ends calls) = 10" and
    l2: "length (circle_centres calls) = 11" and
    le: "line_ends calls =
       map (\<lambda>(a, b). (absolute main_character sample_pose (joint_index a),
                        absolute main_character sample_pose (joint_index b))) spec_segments" and
    l3: "length calls = 21" and
    co: "map call_color calls = replicate 21 (255, 255, 255)"
    by (elim exE conjE)
  have d': "draw_default main_character [] = Inr (main_character, calls)"
    using d by (simp only: draw_default_def append_Nil)
  have le': "line_ends calls =
            [((390, 270), (380, 290)), ((380, 290), (370, 305)),
             ((410, 270), (420, 290)), ((420, 290), (430, 305)),
             ((390, 270), (400, 300)), ((410, 270), (400, 300)),
             ((400, 300), (395, 320)), ((395, 320), (395, 340)),
             ((400, 300), (405, 320)), ((405, 320), (405, 340))]"
    using le by (simp only: sample_segments)
  show ?thesis
    by (intro conjI exI [of _ calls])
      (rule main_character_fields(4) length_sample_pose d' l1 l2 le' l3 co)+
qed

text \<open>
  Claim C4. When \<open>body_points\<close> is falsy (\<open>None\<close> or the empty list) or has fewer
  than 11 entries, \<open>draw\<close> returns normally, raising nothing, with the surface exactly as
  it was: no drawing call is made.
\<close>

theorem draw_noop_without_eleven:
  assumes "\<not> truthy (body_points self)
           \<or> (\<exists>bp. body_points self = Some bp \<and> length bp < 11)"
  shows "draw self surface color lw r = Inr (self, surface)"
  using assms by (auto simp add: draw_def and_then_def)

theorem draw_noop_without_eleven_witness:
  "\<not> truthy (body_points (init 400 300 (PyInt 0) None))
   \<and> draw (init 400 300 (PyInt 0) None) [] (255, 255, 255) 2 4 = Inr (init 400 300 (PyInt 0) None, [])
   \<and> \<not> truthy (body_points (init 400 300 (PyInt 0) (Some [])))
   \<and> draw (init 400 300 (PyInt 0) (Some [])) [] (255, 255, 255) 2 4 = Inr (init 400 300 (PyInt 0) (Some []), [])
   \<and> body_points (init 400 300 (PyInt 0) (Some (take 10 sample_pose))) = Some (take 10 sample_pose)
   \<and> length (take 10 sample_pose) < 11
   \<and> draw (init 400 300 (PyInt 0) (Some (take 10 sample_pose))) [] (255, 255, 255) 2 4
       = Inr (init 400 300 (PyInt 0) (Some (take 10 sample_pose)), [])"
proof -
  have a: "\<not> truthy (body_points (init 400 300 (PyInt 0) None))"
    and b: "\<not> truthy (body_points (init 400 300 (PyInt 0) (Some [])))"
    and c: "body_points (init 400 300 (PyInt 0) (Some (take 10 sample_pose))) = Some (take 10 sample_pose)"
    and d: "length (take 10 sample_pose) < 11"
    by (simp_all add: init_def)
  have e: "\<exists>bp. body_points (init 400 300 (PyInt 0) (Some (take 10 sample_pose))) = Some bp
              \<and> length bp < 11"
    using c d by blast
  show ?thesis
    using a b c d
      draw_noop_without_eleven [OF disjI1 [OF a], of "[]" "(255, 255, 255)" 2 4]
      draw_noop_without_eleven [OF disjI1 [OF b], of "[]" "(255, 255, 255)" 2 4]
      draw_noop_without_eleven [OF disjI2 [OF e], of "[]" "(255, 255, 255)" 2 4]
    by blast
qed

text \<open>
  Claim C10. When \<open>body_points\<close> has more than 11 entries, \<open>draw\<close> does not raise and
  renders from the first 11 offsets only: the calls are those of the character holding just
  the first 11 entries, and they stay the same whatever follows those 11 entries.
\<close>

theorem draw_ignores_extra_points:
  assumes "body_points self = Some bp" and "11 < length bp"
  shows "\<exists>calls.
     draw self surface color lw r = Inr (self, surface @ calls)
     \<and> circle_centres calls = map (\<lambda>p. (fst p + x self, snd p + y self)) (take 11 bp)
     \<and> length calls = 21
     \<and> draw (self\<lparr>body_points := Some (take 11 bp)\<rparr>) surface color lw r
         = Inr (self\<lparr>body_points := Some (take 11 bp)\<rparr>, surface @ calls)
     \<and> (\<forall>extra. draw (self\<lparr>body_points := Some (take 11 bp @ extra)\<rparr>) surface color lw r
           = Inr (self\<lparr>body_points := Some (take 11 bp @ extra)\<rparr>, surface @ calls))"
proof -
  let ?calls = "figure color lw r (absolute self bp)"
  have n: "11 \<le> length bp"
    using assms(2) by simp
  have d: "draw self surface color lw r = Inr (self, surface @ ?calls)"
    by (rule draw_renders [OF assms(1) n])
  have same: "figure color lw r (absolute self (take 11 bp @ extra)) = ?calls" for extra
    by (rule figure_cong) (rule absolute_first_eleven [OF n])
  have e: "draw (self\<lparr>body_points := Some (take 11 bp @ extra)\<rparr>) surface color lw r
      = Inr (self\<lparr>body_points := Some (take 11 bp @ extra)\<rparr>, surface @ ?calls)" for extra
    using draw_renders [of "self\<lparr>body_points := Some (take 11 bp @ extra)\<rparr>"
        "take 11 bp @ extra" surface color lw r] n
    by (simp add: absolute_body_points same)
  have t: "draw (self\<lparr>body_points := Some (take 11 bp)\<rparr>) surface color lw r
      = Inr (self\<lparr>body_points := Some (take 11 bp)\<rparr>, surface @ ?calls)"
    using e [of "[]"] by simp
  have "map (absolute self (take 11 bp)) [0..<11]
      = map (\<lambda>p. (fst p + x self, snd p + y self)) (take 11 bp)"
    using n by (intro absolute_all) simp
  moreover have "map (absolute self (take 11 bp)) [0..<11] = map (absolute self bp) [0..<11]"
    by (simp add: absolute_def del: upt_Suc map_upt_Suc)
  ultimately have cc:
    "circle_centres ?calls = map (\<lambda>p. (fst p + x self, snd p + y self)) (take 11 bp)"
    by (simp only: circle_centres_figure)
  show ?thesis
    using d cc t e length_figure [of color lw r "absolute self bp"] by blast
qed

theorem draw_ignores_extra_points_witness:
  "body_points (init 400 300 (PyInt 0) (Some (sample_pose @ [(7, 7), (8, 8)])))
     = Some (sample_pose @ [(7, 7), (8, 8)])
   \<and> 11 < length (sample_pose @ [(7, 7), (8, 8)])
   \<and> (\<exists>calls.
        draw (init 400 300 (PyInt 0) (Some (sample_pose @ [(7, 7), (8, 8)]))) [] (255, 255, 255) 2 4
          = Inr (init 400 300 (PyInt 0) (Some (sample_pose @ [(7, 7), (8, 8)])), calls)
        \<and> draw main_character [] (255, 255, 255) 2 4 = Inr (main_character, calls)
        \<and> length calls = 21)"
proof -
  let ?c = "init 400 300 (PyInt 0) (Some (sample_pose @ [(7, 7), (8, 8)]))"
  have a: "body_points ?c = Some (sample_pose @ [(7, 7), (8, 8)])"
    by (simp add: init_def)
  have b: "11 < length (sample_pose @ [(7, 7), (8, 8)])"
    by (simp add: length_sample_pose)
  have t: "take 11 (sample_pose @ [(7, 7), (8, 8)]) = sample_pose"
    by (simp add: length_sample_pose)
  have m: "?c\<lparr>body_points := Some sample_pose\<rparr> = main_character"
    by (simp add: init_def main_character_def)
  from draw_ignores_extra_points [OF a b, of "[]" "(255, 255, 255)" 2 4]
  obtain calls where
    "draw ?c [] (255, 255, 255) 2 4 = Inr (?c, [] @ calls)"
    "length calls = 21"
    "draw (?c\<lparr>body_points := Some (take 11 (sample_pose @ [(7, 7), (8, 8)]))\<rparr>) []
       (255, 255, 255) 2 4
     = Inr (?c\<lparr>body_points := Some (take 11 (sample_pose @ [(7, 7), (8, 8)]))\<rparr>, [] @ calls)"
    by blast
  then show ?thesis
    using a b by (simp only: t m append_Nil) blast
qed

text \<open>
  Claim C9. \<open>draw\<close> always returns, with the calls it makes appended to the surface it
  was given and nothing already on the surface changed; \<open>self\<close> is the same afterwards: the
  fields \<open>x\<close>, \<open>y\<close>, \<open>orientation\<close> and \<open>body_points\<close> keep their values, whether or not
  anything was rendered. The call yields no value besides these two objects.
\<close>

theorem draw_frame:
  "\<exists>self' calls. draw self surface color lw r = Inr (self', surface @ calls)
     \<and> x self' = x self \<and> y self' = y self
     \<and> orientation self' = orientation self \<and> body_points self' = body_points self
     \<and> self' = self"
  using draw_returns_self [of self surface color lw r] by blast

subsection \<open>Position\<close>

text \<open>
  Claim C3. After \<open>move(dx, dy)\<close>, \<open>get_position()\<close> returns the position before the call
  plus \<open>(dx, dy)\<close> componentwise; \<open>move(10, -5)\<close> on a character at (400, 300) gives
  (410, 295).
\<close>

theorem move_then_get_position:
  "fst (get_position (move dx dy self)) =
     (fst (fst (get_position self)) + dx, snd (fst (get_position self)) + dy)
   \<and> fst (get_position (move dx dy self)) = (x self + dx, y self + dy)
   \<and> fst (get_position (move 10 (- 5) (init 400 300 angle bp))) = (410, 295)"
  by (simp add: get_position_def move_def init_def)

text \<open>
  Claim C8. \<open>move(dx, dy)\<close> changes the two position fields only: \<open>orientation\<close> and
  \<open>body_points\<close> keep their values, and the new position is the old one plus \<open>(dx, dy)\<close> for
  every value, with no bound applied. \<open>get_position()\<close> leaves \<open>self\<close> as it was.
\<close>

theorem move_frame:
  "orientation (move dx dy self) = orientation self
   \<and> body_points (move dx dy self) = body_points self
   \<and> x (move dx dy self) = x self + dx
   \<and> y (move dx dy self) = y self + dy
   \<and> move dx dy self = self\<lparr>x := x self + dx, y := y self + dy\<rparr>
   \<and> snd (get_position self) = self"
  by (simp add: move_def get_position_def)

subsection \<open>Orientation\<close>







text \<open>
  Claim C7, as stated, fails for a character whose orientation is outside \<open>[0, 360)\<close>:
  constructed with orientation 400, \<open>rotate(360)\<close> changes the field to 40. It also fails
  for a float orientation inside \<open>[0, 360)\<close>: from \<open>0.1\<close>, the float sum \<open>0.1 + 360\<close> is
  rounded and \<open>rotate(360)\<close> stores \<open>0.10000000000002274\<close>.
\<close>

theorem rotate_360_counterexample:
  "rotate (PyInt 360) (init 400 300 (PyInt 400) (Some sample_pose))
     = Inr (init 400 300 (PyInt 40) (Some sample_pose))
   \<and> orientation (init 400 300 (PyInt 40) (Some sample_pose))
     \<noteq> orientation (init 400 300 (PyInt 400) (Some sample_pose))
   \<and> rotate (PyInt 360) (init 400 300 (PyFloat (Finite (3602879701896397 / 2 ^ 55))) (Some sample_pose))
     = Inr (init 400 300 (PyFloat (Finite (879609302221 / 2 ^ 43))) (Some sample_pose))
   \<and> in_range (PyFloat (Finite (3602879701896397 / 2 ^ 55)))"
  by code_simp

text \<open>
  Claim C7, amended. For a character whose orientation is an int in \<open>[0, 360)\<close> (as it is
  after any \<open>rotate\<close> of an int orientation by an int angle), \<open>rotate(360)\<close> returns and
  leaves the orientation, and the whole object, unchanged; so does a rotation by any int
  multiple of 360, negative multiples included.
\<close>

theorem rotate_full_turns:
  assumes "orientation self = PyInt ori" and "normalized self"
  shows "rotate (PyInt 360) self = Inr self
         \<and> rotate (PyInt (360 * k)) self = Inr self"
  using assms by (simp add: normalized_def rotate_def and_then_def)

theorem rotate_full_turns_witness:
  "orientation (init 400 300 (PyInt 10) (Some sample_pose)) = PyInt 10
   \<and> normalized (init 400 300 (PyInt 10) (Some sample_pose))
   \<and> rotate (PyInt 360) (init 400 300 (PyInt 10) (Some sample_pose))
       = Inr (init 400 300 (PyInt 10) (Some sample_pose))
   \<and> rotate (PyInt (360 * (- 2))) (init 400 300 (PyInt 10) (Some sample_pose))
       = Inr (init 400 300 (PyInt 10) (Some sample_pose))"
proof -
  have o: "orientation (init 400 300 (PyInt 10) (Some sample_pose)) = PyInt 10"
    by (simp add: init_def)
  have n: "normalized (init 400 300 (PyInt 10) (Some sample_pose))"
    by (simp add: normalized_def init_def)
  show ?thesis
    using o n rotate_full_turns [OF o n, of "- 2"] by blast
qed

end
